theory Spec2Isabelle
  imports Complex_Main
begin

section \<open>Safety-supervised motion control of the AlphaMini scripts\<close>

text \<open>
  The development embeds the safety variants of the repository:
  \<^item> \<^verbatim>\<open>codes/corne_code_safety.py\<close> (obstacle avoidance with e-stop, median filter,
    debounce, clamping and rate limiting),
  \<^item> \<^verbatim>\<open>codes/final_codes/Low battery detection safety.py\<close> (the gateway \<^verbatim>\<open>safe_move\<close>),
  \<^item> \<^verbatim>\<open>codes/final_codes/Posture Stability Safety.py\<close> (tilt monitor and recovery),
  \<^item> \<^verbatim>\<open>codes/final_codes/Override Control Safety.py\<close> (teacher override, manual loop).

  Conventions of the embedding.
  \<^item> Module-level globals become the fields of a state record that every function takes
    and returns.
  \<^item> Python floats (distances in centimetres, tilt angles in degrees, clock readings in
    seconds) are modelled by exact rationals; NaN and rounding are outside the model.
  \<^item> The clock (\<^verbatim>\<open>time.monotonic()\<close>, \<^verbatim>\<open>time.time()\<close>) is a field of the state.
    \<^verbatim>\<open>await asyncio.sleep(d)\<close> advances it by \<^verbatim>\<open>d\<close>; awaiting a robot command
    advances it by the duration the robot takes for that command.
  \<^item> The robot is an oracle \<open>link\<close>: for the \<open>n\<close>-th command it receives it gives the
    time the command takes and whether the robot acknowledges success. The commands the
    robot has received are logged, oldest first, with the clock reading at which each was
    issued.
  \<^item> An exception raised by a script is a value: a function that can raise returns what
    it raised, if anything, together with the state reached at that point.
  \<^item> Every \<^verbatim>\<open>while\<close> loop of the scripts runs until a flag is set, so it is modelled on
    a finite list of the inputs it reads (sensor readings, console lines): one loop
    iteration per input, a finite prefix of the run.
  \<^item> The console listeners run concurrently with the control loops and only ever set the
    flags; the loops are modelled sequentially, and the gateway theorems are stated for an
    arbitrary state in which the flag is set.
\<close>

subsection \<open>The robot link\<close>

datatype MoveRobotDirection = FORWARD | BACKWARD | LEFTWARD | RIGHTWARD

record move_cmd =
  direction :: MoveRobotDirection
  step :: int
  issued_at :: rat

type_synonym link = "nat \<Rightarrow> rat \<times> bool"

subsection \<open>The vendor SDK as the scripts call it\<close>

text \<open>
  The SDK is not part of the repository. What the embedding takes from it:
  \<^item> \<^verbatim>\<open>MoveRobotDirection\<close> has the members \<^verbatim>\<open>FORWARD\<close>, \<^verbatim>\<open>BACKWARD\<close>,
    \<^verbatim>\<open>LEFTWARD\<close> and \<^verbatim>\<open>RIGHTWARD\<close>; any other attribute of the class raises
    \<^verbatim>\<open>AttributeError\<close>;
  \<^item> the constructor \<^verbatim>\<open>MoveRobot(is_serial=True, direction=FORWARD, step=1)\<close> takes its
    parameters in this order and asserts that \<^verbatim>\<open>direction\<close> is a
    \<^verbatim>\<open>MoveRobotDirection\<close> and that \<^verbatim>\<open>step\<close> is positive;
  \<^item> a request is sent with \<^verbatim>\<open>execute()\<close>, which returns the pair of a result type and
    a response; a request has no method \<^verbatim>\<open>exec\<close>, and the pair has no attribute
    \<^verbatim>\<open>result\<close>.
  The scripts \<^verbatim>\<open>movement.py\<close>, \<^verbatim>\<open>navigation_lurry_obstacle.py\<close>,
  \<^verbatim>\<open>Navigation-Automation.py\<close> and \<^verbatim>\<open>corne_code_safety.py\<close> use the SDK this way:
  \<^verbatim>\<open>MoveRobot(step=step, direction=direction)\<close> with keywords, and
  \<^verbatim>\<open>resultType, response = await block.execute()\<close>.
\<close>

datatype py_error = AssertionError | AttributeError

datatype 'a outcome = Returned 'a | Raised py_error

datatype py_value = PyBool bool | PyInt int | PyDirection MoveRobotDirection

definition direction_attr :: "string \<Rightarrow> py_error + MoveRobotDirection" where
  "direction_attr name =
     (if name = ''FORWARD'' then Inr FORWARD
      else if name = ''BACKWARD'' then Inr BACKWARD
      else if name = ''LEFTWARD'' then Inr LEFTWARD
      else if name = ''RIGHTWARD'' then Inr RIGHTWARD
      else Inl AttributeError)"

definition MoveRobot_init ::
  "py_value \<Rightarrow> py_value \<Rightarrow> int \<Rightarrow> py_error + MoveRobotDirection \<times> int" where
  "MoveRobot_init is_serial dir stp =
     (case dir of
        PyDirection d \<Rightarrow> if 0 < stp then Inr (d, stp) else Inl AssertionError
      | _ \<Rightarrow> Inl AssertionError)"

subsection \<open>Obstacle avoidance: \<^verbatim>\<open>corne_code_safety.py\<close>\<close>

named_theorems config \<open>configuration constants of the scripts\<close>

definition STEP_SIZE :: int where [config]: "STEP_SIZE = 1"
definition BACKWARD_STEPS :: int where [config]: "BACKWARD_STEPS = 2"
definition SLEEP_DURATION :: rat where [config]: "SLEEP_DURATION = 2"
definition SAFE_DISTANCE_CM :: rat where [config]: "SAFE_DISTANCE_CM = 20"
definition MEDIAN_WINDOW :: nat where [config]: "MEDIAN_WINDOW = 3"
definition OBSTACLE_CONFIRM_READS :: int where [config]: "OBSTACLE_CONFIRM_READS = 2"
definition HARD_STOP_CM :: rat where [config]: "HARD_STOP_CM = 8"
definition SENSOR_FAILURE_LIMIT :: int where [config]: "SENSOR_FAILURE_LIMIT = 5"
definition MAX_STEP :: int where [config]: "MAX_STEP = 6"
definition MIN_COMMAND_INTERVAL :: rat where [config]: "MIN_COMMAND_INTERVAL = 2 / 5"

text \<open>
  The globals \<^verbatim>\<open>estop_event\<close>, \<^verbatim>\<open>_last_cmd_ts\<close>, \<^verbatim>\<open>_distance_buf\<close>,
  \<^verbatim>\<open>_consecutive_close\<close>, \<^verbatim>\<open>_consecutive_fail\<close>, with the clock and the log of
  commands the robot received.
\<close>

record safety_state =
  estop_event :: bool
  last_cmd_ts :: rat
  distance_buf :: "rat list"
  consecutive_close :: int
  consecutive_fail :: int
  clock :: rat
  sent :: "move_cmd list"

definition sleep :: "rat \<Rightarrow> safety_state \<Rightarrow> safety_state" where
  "sleep d s = s\<lparr>clock := clock s + d\<rparr>"

text \<open>
  \<^verbatim>\<open>safe_move_robot(direction, step)\<close>: returns at once when the e-stop flag is set;
  otherwise clamps the step, sleeps for what is missing to \<^verbatim>\<open>MIN_COMMAND_INTERVAL\<close>
  since \<^verbatim>\<open>_last_cmd_ts\<close>, executes the command and stores the clock reading taken
  after the command has completed. The function returns \<^verbatim>\<open>None\<close> on every path, so
  the model returns the state only.
\<close>

definition safe_move_robot ::
  "link \<Rightarrow> MoveRobotDirection \<Rightarrow> int \<Rightarrow> safety_state \<Rightarrow> safety_state" where
  "safe_move_robot lnk dir stp s =
     (if estop_event s then s
      else
        let stp' = max 1 (min stp MAX_STEP);
            now = clock s;
            dt = now - last_cmd_ts s;
            t_issue = (if dt < MIN_COMMAND_INTERVAL
                       then now + (MIN_COMMAND_INTERVAL - dt) else now);
            t_done = t_issue + fst (lnk (length (sent s)))
        in s\<lparr>clock := t_done,
              last_cmd_ts := t_done,
              sent := sent s @ [\<lparr>direction = dir, step = stp', issued_at = t_issue\<rparr>]\<rparr>)"

text \<open>A sequence of gateway calls, as issued one after the other by a caller.\<close>

fun safe_move_robot_seq ::
  "link \<Rightarrow> (MoveRobotDirection \<times> int) list \<Rightarrow> safety_state \<Rightarrow> safety_state" where
  "safe_move_robot_seq lnk [] s = s"
| "safe_move_robot_seq lnk ((dir, stp) # calls) s =
     safe_move_robot_seq lnk calls (safe_move_robot lnk dir stp s)"

subsection \<open>Low-battery return: the gateway \<^verbatim>\<open>safe_move\<close>\<close>

definition STEP_MIN :: int where [config]: "STEP_MIN = 1"
definition STEP_MAX :: int where [config]: "STEP_MAX = 6"
definition RATE_LIMIT_S :: rat where [config]: "RATE_LIMIT_S = 2 / 5"

record battery_state =
  b_estop :: bool
  b_is_returning :: bool
  b_last_move_ts :: rat
  b_clock :: rat
  b_sent :: "move_cmd list"

definition clamp_steps :: "int \<Rightarrow> int" where
  "clamp_steps n = max STEP_MIN (min STEP_MAX n)"

text \<open>
  \<^verbatim>\<open>safe_move(direction, steps) -> bool\<close>: returns \<^verbatim>\<open>False\<close> at once when the e-stop
  flag is set. Otherwise it clamps the steps, sleeps for what is missing to
  \<^verbatim>\<open>RATE_LIMIT_S\<close>, sends the command with \<^verbatim>\<open>res = await req.execute()\<close> and stores the
  clock reading in \<^verbatim>\<open>_last_move_ts\<close>; the next line reads \<^verbatim>\<open>res.result\<close> on the pair
  that \<^verbatim>\<open>execute()\<close> returned and raises \<^verbatim>\<open>AttributeError\<close>, so a call that is not
  suppressed never returns a value. The clamped steps are positive, so the constructor's
  assertions hold.
\<close>

definition safe_move ::
  "link \<Rightarrow> MoveRobotDirection \<Rightarrow> int \<Rightarrow> battery_state \<Rightarrow> bool outcome \<times> battery_state" where
  "safe_move lnk dir steps s =
     (if b_estop s then (Returned False, s)
      else
        let steps' = clamp_steps steps;
            to_wait = max 0 (RATE_LIMIT_S - (b_clock s - b_last_move_ts s));
            t_issue = (if to_wait > 0 then b_clock s + to_wait else b_clock s);
            t_done = t_issue + fst (lnk (length (b_sent s)))
        in (Raised AttributeError,
            s\<lparr>b_clock := t_done,
              b_last_move_ts := t_done,
              b_sent := b_sent s @ [\<lparr>direction = dir, step = steps', issued_at = t_issue\<rparr>]\<rparr>))"

text \<open>
  A sequence of calls by a caller that goes on after a call has raised; the outcomes of
  the calls are collected.
\<close>

fun safe_move_seq ::
  "link \<Rightarrow> (MoveRobotDirection \<times> int) list \<Rightarrow> battery_state
     \<Rightarrow> bool outcome list \<times> battery_state" where
  "safe_move_seq lnk [] s = ([], s)"
| "safe_move_seq lnk ((dir, steps) # calls) s =
     (let (ok, s') = safe_move lnk dir steps s;
          (oks, s'') = safe_move_seq lnk calls s'
      in (ok # oks, s''))"

subsection \<open>Obstacle avoidance: filter, classification and the control loop\<close>

text \<open>
  \<^verbatim>\<open>median(values)\<close>: \<^verbatim>\<open>None\<close> on an empty list, the middle element of the sorted
  list for an odd length, the mean of the two middle elements for an even length. The
  indices are in range: \<open>mid < length s\<close>, and \<open>1 \<le> mid\<close> when the length is even.
\<close>

definition median :: "rat list \<Rightarrow> rat option" where
  "median values =
     (if values = [] then None
      else
        let s = sort values;
            mid = length s div 2
        in if length s mod 2 = 1 then Some (s ! mid)
           else Some ((1 / 2) * (s ! (mid - 1) + s ! mid)))"

text \<open>
  \<^verbatim>\<open>_distance_buf.append(x)\<close> on a \<^verbatim>\<open>deque(maxlen=MEDIAN_WINDOW)\<close>: the new sample goes
  to the right end, and a full deque drops its oldest sample from the left.
\<close>

definition buf_append :: "rat \<Rightarrow> rat list \<Rightarrow> rat list" where
  "buf_append x buf =
     (let b = buf @ [x] in if length b > MEDIAN_WINDOW then drop (length b - MEDIAN_WINDOW) b else b)"

text \<open>
  The branches of one iteration of the loop of \<^verbatim>\<open>avoid_obstacles\<close>, named after the
  message each one prints. \<open>TooManyFailures\<close> and \<open>HardStop\<close> set the e-stop flag and
  leave the loop with \<^verbatim>\<open>break\<close>; the others go on with the next iteration.
\<close>

datatype branch =
    SensorFailure | TooManyFailures | Discarded | NoMedian
  | HardStop | ObstacleConfirmed | PathClear

fun leaves_loop :: "branch \<Rightarrow> bool" where
  "leaves_loop TooManyFailures = True"
| "leaves_loop HardStop = True"
| "leaves_loop _ = False"

text \<open>
  One iteration of the loop body, on the value returned by \<^verbatim>\<open>get_distance_cm()\<close>
  (\<^verbatim>\<open>None\<close> when the read failed).
\<close>

definition loop_body :: "link \<Rightarrow> rat option \<Rightarrow> safety_state \<Rightarrow> branch \<times> safety_state" where
  "loop_body lnk reading s0 =
     (case reading of
        None \<Rightarrow>
          (let s1 = s0\<lparr>consecutive_fail := consecutive_fail s0 + 1\<rparr>
           in if consecutive_fail s1 \<ge> SENSOR_FAILURE_LIMIT
              then (TooManyFailures, s1\<lparr>estop_event := True\<rparr>)
              else (SensorFailure, sleep (1 / 2) s1))
      | Some distance \<Rightarrow>
          (let s1 = s0\<lparr>consecutive_fail := 0\<rparr>
           in if distance \<le> 0 \<or> distance > 5000
              then (Discarded, sleep (1 / 5) s1)
              else
                (let s2 = s1\<lparr>distance_buf := buf_append distance (distance_buf s1)\<rparr>
                 in case median (distance_buf s2) of
                      None \<Rightarrow> (NoMedian, sleep (1 / 10) s2)
                    | Some filt \<Rightarrow>
                        if filt < HARD_STOP_CM
                        then (HardStop,
                              (safe_move_robot lnk BACKWARD (max BACKWARD_STEPS 2) s2)
                                \<lparr>estop_event := True\<rparr>)
                        else
                          (let s3 = s2\<lparr>consecutive_close :=
                                        (if filt < SAFE_DISTANCE_CM
                                         then consecutive_close s2 + 1 else 0)\<rparr>
                           in if consecutive_close s3 \<ge> OBSTACLE_CONFIRM_READS
                              then (ObstacleConfirmed,
                                    sleep SLEEP_DURATION
                                      ((safe_move_robot lnk RIGHTWARD 2
                                          (safe_move_robot lnk BACKWARD BACKWARD_STEPS s3))
                                         \<lparr>consecutive_close := 0\<rparr>))
                              else (PathClear,
                                    sleep SLEEP_DURATION
                                      (safe_move_robot lnk FORWARD STEP_SIZE s3))))))"

text \<open>
  \<^verbatim>\<open>while not estop_event.is_set(): ...\<close> on the readings the sensor delivers.
\<close>

fun avoid_obstacles :: "link \<Rightarrow> rat option list \<Rightarrow> safety_state \<Rightarrow> safety_state" where
  "avoid_obstacles lnk [] s = s"
| "avoid_obstacles lnk (reading # readings) s =
     (if estop_event s then s
      else
        (case loop_body lnk reading s of
           (b, s') \<Rightarrow> if leaves_loop b then s' else avoid_obstacles lnk readings s'))"

text \<open>The module state at start-up, at clock reading \<open>t0\<close>.\<close>

definition initial_state :: "rat \<Rightarrow> safety_state" where
  "initial_state t0 =
     \<lparr>estop_event = False, last_cmd_ts = 0, distance_buf = [],
      consecutive_close = 0, consecutive_fail = 0, clock = t0, sent = []\<rparr>"

definition initial_battery_state :: "rat \<Rightarrow> battery_state" where
  "initial_battery_state t0 =
     \<lparr>b_estop = False, b_is_returning = False, b_last_move_ts = 0, b_clock = t0, b_sent = []\<rparr>"

text \<open>A robot that takes half a second for every command and acknowledges it.\<close>

definition steady_link :: link where
  "steady_link n = (1 / 2, True)"

text \<open>
  The hazard level the loop body assigns to a filtered distance: the test
  \<^verbatim>\<open>filt < HARD_STOP_CM\<close> of the hard stop comes first, then the test
  \<^verbatim>\<open>filt < SAFE_DISTANCE_CM\<close> that counts a close reading.
\<close>

datatype hazard = Clear | Soft | Hard

definition classify_distance :: "rat \<Rightarrow> hazard" where
  "classify_distance filt =
     (if filt < HARD_STOP_CM then Hard
      else if filt < SAFE_DISTANCE_CM then Soft
      else Clear)"






subsection \<open>Posture stability: \<^verbatim>\<open>Posture Stability Safety.py\<close>\<close>

definition SAFE_TILT_WARN :: rat where [config]: "SAFE_TILT_WARN = 10"
definition SAFE_TILT_TRIP :: rat where [config]: "SAFE_TILT_TRIP = 18"
definition SAMPLE_HZ :: rat where [config]: "SAMPLE_HZ = 20"
definition MOVE_COOLDOWN :: rat where [config]: "MOVE_COOLDOWN = 7 / 20"
definition MAX_STEPS :: int where [config]: "MAX_STEPS = 6"
definition DEBOUNCE :: int where [config]: "DEBOUNCE = 3"

text \<open>
  The global \<^verbatim>\<open>estop_event\<close>, the clock and the command log, with the two locals
  \<^verbatim>\<open>warn_count\<close> and \<^verbatim>\<open>trip_count\<close> of \<^verbatim>\<open>posture_monitor\<close>.
\<close>

record posture_state =
  p_estop_event :: bool
  p_clock :: rat
  p_sent :: "move_cmd list"
  warn_count :: int
  trip_count :: int

definition clamp :: "int \<Rightarrow> int \<Rightarrow> int \<Rightarrow> int" where
  "clamp v lo hi = max lo (min hi v)"

text \<open>
  \<^verbatim>\<open>move_safe(direction, steps)\<close>: nothing when the e-stop flag is set. Otherwise the
  steps are clamped and the request is built with \<^verbatim>\<open>MoveRobot(direction, steps)\<close>, by
  position: the direction arrives as \<^verbatim>\<open>is_serial\<close>, the steps as \<^verbatim>\<open>direction\<close>, and
  \<^verbatim>\<open>step\<close> keeps its default 1. Were the request built, it would be executed and
  followed by a sleep of \<^verbatim>\<open>MOVE_COOLDOWN\<close>; the result is read with
  \<^verbatim>\<open>getattr(resp, "result", None)\<close>, which does not raise.
\<close>

definition move_safe ::
  "link \<Rightarrow> MoveRobotDirection \<Rightarrow> int \<Rightarrow> posture_state \<Rightarrow> py_error option \<times> posture_state" where
  "move_safe lnk dir steps s =
     (if p_estop_event s then (None, s)
      else
        let steps' = clamp steps 1 MAX_STEPS
        in case MoveRobot_init (PyDirection dir) (PyInt steps') 1 of
             Inl e \<Rightarrow> (Some e, s)
           | Inr req \<Rightarrow>
               (let t_done = p_clock s + fst (lnk (length (p_sent s)))
                in (None,
                    s\<lparr>p_sent := p_sent s @ [\<lparr>direction = fst req, step = snd req,
                                             issued_at = p_clock s\<rparr>],
                      p_clock := t_done + MOVE_COOLDOWN\<rparr>)))"

definition recovery_sequence :: "link \<Rightarrow> posture_state \<Rightarrow> py_error option \<times> posture_state" where
  "recovery_sequence lnk s =
     (case move_safe lnk BACKWARD 1 s of
        (Some e, s') \<Rightarrow> (Some e, s')
      | (None, s') \<Rightarrow> move_safe lnk FORWARD 1 s')"

text \<open>
  The level of a tilt sample, as the \<^verbatim>\<open>if\<close>/\<^verbatim>\<open>elif\<close>/\<^verbatim>\<open>else\<close> of the monitor
  tests it: trip first, then warn.
\<close>

definition classify_tilt :: "rat \<Rightarrow> rat \<Rightarrow> hazard" where
  "classify_tilt pitch roll =
     (if \<bar>pitch\<bar> \<ge> SAFE_TILT_TRIP \<or> \<bar>roll\<bar> \<ge> SAFE_TILT_TRIP then Hard
      else if \<bar>pitch\<bar> \<ge> SAFE_TILT_WARN \<or> \<bar>roll\<bar> \<ge> SAFE_TILT_WARN then Soft
      else Clear)"

text \<open>
  What an iteration of the monitor announces: \<^verbatim>\<open>[WARN] Approaching unsafe tilt.\<close> and
  \<^verbatim>\<open>[TRIP] Tilt beyond safe limit! Initiating recovery.\<close>
\<close>

datatype notice = WarnNotice | TripNotice

text \<open>
  One iteration of the loop of \<^verbatim>\<open>posture_monitor\<close> on a sample (pitch, roll): the
  notices announced, what the iteration raised, if anything, and the state. The trip
  notice is printed before the recovery is called; when the recovery raises, the
  iteration ends there, before \<^verbatim>\<open>trip_count = 0\<close> and the sleep.
\<close>

definition monitor_body ::
  "link \<Rightarrow> rat \<times> rat \<Rightarrow> posture_state \<Rightarrow> notice list \<times> py_error option \<times> posture_state" where
  "monitor_body lnk sample s0 =
     (let pitch = fst sample; roll = snd sample;
          s1 = (if \<bar>pitch\<bar> \<ge> SAFE_TILT_TRIP \<or> \<bar>roll\<bar> \<ge> SAFE_TILT_TRIP
                then s0\<lparr>trip_count := trip_count s0 + 1, warn_count := 0\<rparr>
                else if \<bar>pitch\<bar> \<ge> SAFE_TILT_WARN \<or> \<bar>roll\<bar> \<ge> SAFE_TILT_WARN
                then s0\<lparr>warn_count := warn_count s0 + 1, trip_count := 0\<rparr>
                else s0\<lparr>warn_count := 0, trip_count := 0\<rparr>);
          warned = (warn_count s1 \<ge> DEBOUNCE);
          s2 = (if warned then s1\<lparr>warn_count := 0\<rparr> else s1);
          tripped = (trip_count s2 \<ge> DEBOUNCE);
          notices = (if warned then [WarnNotice] else []) @ (if tripped then [TripNotice] else [])
      in if tripped then
           (case recovery_sequence lnk s2 of
              (Some e, r) \<Rightarrow> (notices, Some e, r)
            | (None, r) \<Rightarrow>
                (notices, None, r\<lparr>trip_count := 0, p_clock := p_clock r + 1 / SAMPLE_HZ\<rparr>))
         else (notices, None, s2\<lparr>p_clock := p_clock s2 + 1 / SAMPLE_HZ\<rparr>))"

text \<open>
  \<^verbatim>\<open>while not estop_event.is_set(): ...\<close> on the samples the provider delivers; an
  exception raised by an iteration ends the loop.
\<close>

fun monitor_loop ::
  "link \<Rightarrow> (rat \<times> rat) list \<Rightarrow> posture_state
     \<Rightarrow> notice list \<times> py_error option \<times> posture_state" where
  "monitor_loop lnk [] s = ([], None, s)"
| "monitor_loop lnk (sample # samples) s =
     (if p_estop_event s then ([], None, s)
      else
        (case monitor_body lnk sample s of
           (ns, Some e, s') \<Rightarrow> (ns, Some e, s')
         | (ns, None, s') \<Rightarrow>
             (case monitor_loop lnk samples s' of (ns', r) \<Rightarrow> (ns @ ns', r))))"

text \<open>\<^verbatim>\<open>posture_monitor\<close>: both counters start at zero.\<close>

definition posture_monitor ::
  "link \<Rightarrow> (rat \<times> rat) list \<Rightarrow> posture_state
     \<Rightarrow> notice list \<times> py_error option \<times> posture_state" where
  "posture_monitor lnk samples s = monitor_loop lnk samples (s\<lparr>warn_count := 0, trip_count := 0\<rparr>)"

definition initial_posture_state :: "rat \<Rightarrow> posture_state" where
  "initial_posture_state t0 =
     \<lparr>p_estop_event = False, p_clock = t0, p_sent = [], warn_count = 0, trip_count = 0\<rparr>"

subsection \<open>Teacher override: \<^verbatim>\<open>Override Control Safety.py\<close>\<close>

definition OVERRIDE_STEP_SIZE :: int where [config]: "OVERRIDE_STEP_SIZE = 1"

record override_state =
  override_event :: bool
  shutdown_event :: bool
  o_clock :: rat
  o_sent :: "move_cmd list"

text \<open>
  \<^verbatim>\<open>safe_move(direction, steps)\<close> of the override script: nothing when
  \<^verbatim>\<open>shutdown_event\<close> is set. Otherwise the request is built from the arguments as they
  are, with keywords, and the next line calls \<^verbatim>\<open>req.exec()\<close>, a method the request does
  not have: \<^verbatim>\<open>AttributeError\<close>, nothing is sent. The function neither clamps the steps
  nor sleeps.
\<close>

definition safe_move_override ::
  "MoveRobotDirection \<Rightarrow> int \<Rightarrow> override_state \<Rightarrow> py_error option \<times> override_state" where
  "safe_move_override dir steps s =
     (if shutdown_event s then (None, s)
      else
        (case MoveRobot_init (PyBool True) (PyDirection dir) steps of
           Inl e \<Rightarrow> (Some e, s)
         | Inr req \<Rightarrow> (Some AttributeError, s)))"

text \<open>
  A console read of \<^verbatim>\<open>manual_loop\<close>: the time the operator takes, and either no line
  (\<^verbatim>\<open>if not line: continue\<close>) or the command \<^verbatim>\<open>line.strip().lower()\<close>.
\<close>

datatype console_line = NoLine | Cmd string

text \<open>
  A directional command first evaluates its direction, \<^verbatim>\<open>MoveRobotDirection.Forward\<close>,
  \<^verbatim>\<open>.Backward\<close>, \<^verbatim>\<open>.LeftTurn\<close> or \<^verbatim>\<open>.RightTurn\<close>, and then calls the gateway
  with \<^verbatim>\<open>STEP_SIZE\<close> steps.
\<close>

definition manual_move ::
  "string \<Rightarrow> override_state \<Rightarrow> py_error option \<times> override_state" where
  "manual_move name s =
     (case direction_attr name of
        Inl e \<Rightarrow> (Some e, s)
      | Inr dir \<Rightarrow> safe_move_override dir OVERRIDE_STEP_SIZE s)"

fun manual_loop ::
  "(rat \<times> console_line) list \<Rightarrow> override_state \<Rightarrow> py_error option \<times> override_state" where
  "manual_loop [] s = (None, s)"
| "manual_loop ((delay, entry) # rest) s =
     (if override_event s \<and> \<not> shutdown_event s then
        (let s1 = s\<lparr>o_clock := o_clock s + delay\<rparr>
         in case entry of
              NoLine \<Rightarrow> manual_loop rest s1
            | Cmd cmd \<Rightarrow>
                if cmd = ''w'' then
                  (case manual_move ''Forward'' s1 of
                     (Some e, s2) \<Rightarrow> (Some e, s2)
                   | (None, s2) \<Rightarrow> manual_loop rest s2)
                else if cmd = ''s'' then
                  (case manual_move ''Backward'' s1 of
                     (Some e, s2) \<Rightarrow> (Some e, s2)
                   | (None, s2) \<Rightarrow> manual_loop rest s2)
                else if cmd = ''a'' then
                  (case manual_move ''LeftTurn'' s1 of
                     (Some e, s2) \<Rightarrow> (Some e, s2)
                   | (None, s2) \<Rightarrow> manual_loop rest s2)
                else if cmd = ''d'' then
                  (case manual_move ''RightTurn'' s1 of
                     (Some e, s2) \<Rightarrow> (Some e, s2)
                   | (None, s2) \<Rightarrow> manual_loop rest s2)
                else if cmd = ''x'' then manual_loop rest s1
                else if cmd = ''o'' then (None, s1\<lparr>override_event := False\<rparr>)
                else if cmd = ''q'' then (None, s1\<lparr>shutdown_event := True\<rparr>)
                else manual_loop rest s1)
      else (None, s))"

text \<open>The override script just after the operator has engaged the override.\<close>

definition overridden_state :: "rat \<Rightarrow> override_state" where
  "overridden_state t0 =
     \<lparr>override_event = True, shutdown_event = False, o_clock = t0, o_sent = []\<rparr>"

text \<open>
  The state of an iteration after a reading has been accepted: the failure counter is
  reset and the reading is in the filter window.
\<close>

definition filtered :: "rat \<Rightarrow> safety_state \<Rightarrow> safety_state" where
  "filtered distance s =
     s\<lparr>consecutive_fail := 0, distance_buf := buf_append distance (distance_buf s)\<rparr>"

text \<open>A state of the obstacle-avoidance script after three failed sensor reads in a row.\<close>

definition three_failures :: safety_state where
  "three_failures = (initial_state 10)\<lparr>consecutive_fail := 3\<rparr>"



text \<open>Both counters of the posture monitor are below the confirmation count.\<close>

definition debounced :: "posture_state \<Rightarrow> bool" where
  "debounced m \<longleftrightarrow>
     0 \<le> warn_count m \<and> warn_count m < DEBOUNCE \<and> 0 \<le> trip_count m \<and> trip_count m < DEBOUNCE"

text \<open>
  The steps of \<^verbatim>\<open>safe_move\<close> between its suspension points, for calls that overlap.
  \<open>safe_move_start\<close> is the code up to the sleep: the flag test, the clamp and the
  wait computed from the clock and \<^verbatim>\<open>_last_move_ts\<close> as they are at the call; it
  gives the command and the clock reading at which the sleep is over, or nothing when
  the call is suppressed. \<open>safe_move_execute\<close> is \<^verbatim>\<open>req.execute()\<close> up to its
  suspension: the command goes out. \<open>safe_move_resume\<close> is the code after the answer has
  arrived at clock reading \<open>t\<close>: the timestamp is stored and \<^verbatim>\<open>res.result\<close> raises.
\<close>

definition safe_move_start :: "MoveRobotDirection \<Rightarrow> int \<Rightarrow> battery_state \<Rightarrow> move_cmd option" where
  "safe_move_start dir steps s =
     (if b_estop s then None
      else
        let steps' = clamp_steps steps;
            to_wait = max 0 (RATE_LIMIT_S - (b_clock s - b_last_move_ts s))
        in Some \<lparr>direction = dir, step = steps',
                 issued_at = (if to_wait > 0 then b_clock s + to_wait else b_clock s)\<rparr>)"

definition safe_move_execute :: "move_cmd \<Rightarrow> battery_state \<Rightarrow> battery_state" where
  "safe_move_execute c s = s\<lparr>b_clock := issued_at c, b_sent := b_sent s @ [c]\<rparr>"

definition safe_move_resume :: "rat \<Rightarrow> battery_state \<Rightarrow> bool outcome \<times> battery_state" where
  "safe_move_resume t s = (Raised AttributeError, s\<lparr>b_clock := t, b_last_move_ts := t\<rparr>)"



section \<open>Theorems\<close>

subsection \<open>Helper lemmas\<close>

lemma safe_move_robot_estop: "estop_event s \<Longrightarrow> safe_move_robot lnk dir stp s = s"
  by (simp add: safe_move_robot_def)

lemma safe_move_robot_seq_estop:
  "estop_event s \<Longrightarrow> safe_move_robot_seq lnk calls s = s"
  by (induction calls arbitrary: s) (auto simp: safe_move_robot_estop)

lemma safe_move_estop: "b_estop s \<Longrightarrow> safe_move lnk dir steps s = (Returned False, s)"
  by (simp add: safe_move_def)

lemma safe_move_seq_estop:
  "b_estop s \<Longrightarrow> safe_move_seq lnk calls s = (replicate (length calls) (Returned False), s)"
  by (induction calls arbitrary: s) (auto simp: safe_move_estop)

subsection \<open>The gateway under e-stop\<close>

text \<open>
  C1. While the e-stop flag is set, every call of the gateway returns without issuing a
  command to the robot and without sleeping, whatever the direction and the step: for
  any sequence of calls of \<^verbatim>\<open>safe_move_robot\<close> the log of commands received by the
  robot and the clock stay as they were and the flag stays set, and every call of
  \<^verbatim>\<open>safe_move\<close> of the low-battery variant returns \<^verbatim>\<open>False\<close>, its value for a
  command that was not carried out, again with the log and the clock unchanged.
\<close>

theorem estop_suppresses_every_dispatch:
  "(estop_event s \<longrightarrow>
      sent (safe_move_robot_seq lnk calls s) = sent s
      \<and> clock (safe_move_robot_seq lnk calls s) = clock s
      \<and> estop_event (safe_move_robot_seq lnk calls s))
   \<and> (b_estop b \<longrightarrow>
      fst (safe_move_seq lnk calls b) = replicate (length calls) (Returned False)
      \<and> b_sent (snd (safe_move_seq lnk calls b)) = b_sent b
      \<and> b_clock (snd (safe_move_seq lnk calls b)) = b_clock b
      \<and> b_estop (snd (safe_move_seq lnk calls b)))"
  by (simp add: safe_move_robot_seq_estop safe_move_seq_estop)

theorem estop_suppresses_every_dispatch_witness:
  "estop_event ((initial_state 10)\<lparr>estop_event := True\<rparr>)
   \<and> b_estop ((initial_battery_state 10)\<lparr>b_estop := True\<rparr>)
   \<and> sent (safe_move_robot_seq steady_link [(FORWARD, 3), (BACKWARD, 100)]
             ((initial_state 10)\<lparr>estop_event := True\<rparr>)) = []
   \<and> fst (safe_move_seq steady_link [(FORWARD, 3), (BACKWARD, 100)]
             ((initial_battery_state 10)\<lparr>b_estop := True\<rparr>)) = [Returned False, Returned False]
   \<and> b_sent (snd (safe_move_seq steady_link [(FORWARD, 3), (BACKWARD, 100)]
             ((initial_battery_state 10)\<lparr>b_estop := True\<rparr>))) = []"
  using estop_suppresses_every_dispatch
    [of "(initial_state 10)\<lparr>estop_event := True\<rparr>" steady_link
        "[(FORWARD, 3), (BACKWARD, 100)]" "(initial_battery_state 10)\<lparr>b_estop := True\<rparr>"]
  by (simp add: initial_state_def initial_battery_state_def)

text \<open>
  C10. A call of \<^verbatim>\<open>safe_move_robot\<close> made while the e-stop flag is set returns the
  state it was given: \<^verbatim>\<open>_last_cmd_ts\<close>, the clock (no sleep), the filter window, the
  counters and the log of commands are all unchanged, for every direction and step.
\<close>

theorem suppressed_dispatch_leaves_state:
  assumes "estop_event s"
  shows "safe_move_robot lnk dir stp s = s"
  using assms by (simp add: safe_move_robot_def)

theorem suppressed_dispatch_leaves_state_witness:
  "estop_event ((initial_state 10)\<lparr>estop_event := True, last_cmd_ts := 7\<rparr>)
   \<and> last_cmd_ts (safe_move_robot steady_link LEFTWARD 4
        ((initial_state 10)\<lparr>estop_event := True, last_cmd_ts := 7\<rparr>)) = 7
   \<and> clock (safe_move_robot steady_link LEFTWARD 4
        ((initial_state 10)\<lparr>estop_event := True, last_cmd_ts := 7\<rparr>)) = 10"
  using suppressed_dispatch_leaves_state
    [of "(initial_state 10)\<lparr>estop_event := True, last_cmd_ts := 7\<rparr>" steady_link LEFTWARD 4]
  by (simp add: initial_state_def)

subsection \<open>Facts about the obstacle-avoidance loop\<close>

lemma avoid_obstacles_estop: "estop_event s \<Longrightarrow> avoid_obstacles lnk readings s = s"
  by (cases readings) auto

lemma buf_append_nonempty: "buf_append x buf \<noteq> []"
  by (simp add: buf_append_def Let_def MEDIAN_WINDOW_def)

lemma median_None_iff: "median values = None \<longleftrightarrow> values = []"
proof (cases "values = []")
  case True
  then show ?thesis by (simp add: median_def)
next
  case False
  show ?thesis
  proof (cases "length (sort values) mod 2 = 1")
    case True
    with False show ?thesis unfolding median_def Let_def by simp
  next
    case even: False
    with False show ?thesis unfolding median_def Let_def
      by (simp only: if_False option.distinct)
  qed
qed

lemma median_buf_append: "\<exists>filt. median (buf_append x buf) = Some filt"
  using median_None_iff [of "buf_append x buf"] buf_append_nonempty [of x buf]
  by (cases "median (buf_append x buf)") simp_all

lemma safe_move_robot_frame:
  "estop_event (safe_move_robot lnk dir stp s) = estop_event s"
  "distance_buf (safe_move_robot lnk dir stp s) = distance_buf s"
  "consecutive_close (safe_move_robot lnk dir stp s) = consecutive_close s"
  "consecutive_fail (safe_move_robot lnk dir stp s) = consecutive_fail s"
  by (simp_all add: safe_move_robot_def Let_def)

lemma loop_body_hard:
  assumes "0 < distance" "distance \<le> 5000"
    and "median (buf_append distance (distance_buf s)) = Some filt"
    and "filt < HARD_STOP_CM"
  shows "loop_body lnk (Some distance) s =
           (HardStop,
            (safe_move_robot lnk BACKWARD 2 (filtered distance s))\<lparr>estop_event := True\<rparr>)"
  using assms by (simp add: loop_body_def filtered_def BACKWARD_STEPS_def)

lemma loop_body_soft:
  assumes "0 < distance" "distance \<le> 5000"
    and "median (buf_append distance (distance_buf s)) = Some filt"
    and "HARD_STOP_CM \<le> filt" "filt < SAFE_DISTANCE_CM"
  shows "loop_body lnk (Some distance) s =
           (let s3 = (filtered distance s)\<lparr>consecutive_close := consecutive_close s + 1\<rparr>
            in if OBSTACLE_CONFIRM_READS \<le> consecutive_close s + 1
               then (ObstacleConfirmed,
                     sleep SLEEP_DURATION
                       ((safe_move_robot lnk RIGHTWARD 2
                           (safe_move_robot lnk BACKWARD BACKWARD_STEPS s3))
                          \<lparr>consecutive_close := 0\<rparr>))
               else (PathClear,
                     sleep SLEEP_DURATION (safe_move_robot lnk FORWARD STEP_SIZE s3)))"
  using assms by (simp add: loop_body_def filtered_def Let_def)

lemma loop_body_clear:
  assumes "0 < distance" "distance \<le> 5000"
    and "median (buf_append distance (distance_buf s)) = Some filt"
    and "SAFE_DISTANCE_CM \<le> filt"
  shows "loop_body lnk (Some distance) s =
           (PathClear,
            sleep SLEEP_DURATION
              (safe_move_robot lnk FORWARD STEP_SIZE
                 ((filtered distance s)\<lparr>consecutive_close := 0\<rparr>)))"
  using assms by (simp add: loop_body_def filtered_def Let_def config)

subsection \<open>Out-of-range samples\<close>

text \<open>
  C4, as the script behaves. A sample outside the sane range (distance at most 0 or above
  5000 cm) is discarded: the filter window, and with it the median, is unchanged, no
  command is issued, and the loop goes on after a sleep of 0.2 s. The failure counter is
  not incremented: the read itself succeeded, so the counter is reset to zero before the
  range test. Only a failed read (\<^verbatim>\<open>None\<close>) counts as a failure.
\<close>

theorem out_of_range_sample_discarded:
  assumes "distance \<le> 0 \<or> distance > 5000"
  shows "loop_body lnk (Some distance) s =
           (Discarded, s\<lparr>consecutive_fail := 0, clock := clock s + 1 / 5\<rparr>)
         \<and> distance_buf (snd (loop_body lnk (Some distance) s)) = distance_buf s
         \<and> median (distance_buf (snd (loop_body lnk (Some distance) s))) = median (distance_buf s)
         \<and> sent (snd (loop_body lnk (Some distance) s)) = sent s
         \<and> consecutive_fail (snd (loop_body lnk (Some distance) s)) = 0"
  using assms by (auto simp: loop_body_def sleep_def)

theorem out_of_range_sample_discarded_witness:
  "((-1::rat) \<le> 0 \<or> (-1::rat) > 5000)
   \<and> ((6000::rat) \<le> 0 \<or> (6000::rat) > 5000)
   \<and> loop_body steady_link (Some (-1)) three_failures
       = (Discarded, (initial_state 10)\<lparr>clock := 51 / 5\<rparr>)
   \<and> loop_body steady_link (Some 6000) three_failures
       = (Discarded, (initial_state 10)\<lparr>clock := 51 / 5\<rparr>)"
  using out_of_range_sample_discarded [of "-1" steady_link three_failures]
    out_of_range_sample_discarded [of 6000 steady_link three_failures]
  by (simp add: three_failures_def initial_state_def)

text \<open>
  The claim C4 as it is written fails: after three failed reads, an out-of-range sample
  leaves the failure counter at 0, not at 4.
\<close>

theorem out_of_range_counterexample:
  "consecutive_fail (snd (loop_body steady_link (Some (-1)) three_failures)) = 0
   \<and> consecutive_fail (snd (loop_body steady_link (Some (-1)) three_failures))
       \<noteq> consecutive_fail three_failures + 1"
  by (simp add: loop_body_def sleep_def three_failures_def initial_state_def)

subsection \<open>Persistent sensor failure\<close>

text \<open>
  C6. In every run of the control loop, a failed read that brings the counter of
  consecutive failures to \<^verbatim>\<open>SENSOR_FAILURE_LIMIT\<close> (5) sets the e-stop flag and ends the
  loop: whatever samples follow are not processed, no command is issued, and every later
  call of the gateway is suppressed. A failed read that leaves the counter below the
  limit is tolerated: the flag is not set and the loop goes on with the next sample after
  a sleep of 0.5 s.
\<close>

theorem persistent_sensor_failure_is_fatal:
  assumes "\<not> estop_event s"
  shows "(SENSOR_FAILURE_LIMIT \<le> consecutive_fail s + 1 \<longrightarrow>
            avoid_obstacles lnk (None # later) s
              = s\<lparr>consecutive_fail := consecutive_fail s + 1, estop_event := True\<rparr>
            \<and> estop_event (avoid_obstacles lnk (None # later) s)
            \<and> sent (avoid_obstacles lnk (None # later) s) = sent s
            \<and> avoid_obstacles lnk extra (avoid_obstacles lnk (None # later) s)
                = avoid_obstacles lnk (None # later) s
            \<and> safe_move_robot lnk dir stp (avoid_obstacles lnk (None # later) s)
                = avoid_obstacles lnk (None # later) s)
         \<and> (consecutive_fail s + 1 < SENSOR_FAILURE_LIMIT \<longrightarrow>
            loop_body lnk None s
              = (SensorFailure,
                 s\<lparr>consecutive_fail := consecutive_fail s + 1, clock := clock s + 1 / 2\<rparr>)
            \<and> avoid_obstacles lnk (None # later) s
                = avoid_obstacles lnk later
                    (s\<lparr>consecutive_fail := consecutive_fail s + 1, clock := clock s + 1 / 2\<rparr>))"
proof (intro conjI impI)
  assume limit: "SENSOR_FAILURE_LIMIT \<le> consecutive_fail s + 1"
  let ?s' = "s\<lparr>consecutive_fail := consecutive_fail s + 1, estop_event := True\<rparr>"
  show run: "avoid_obstacles lnk (None # later) s = ?s'"
    using assms limit by (simp add: loop_body_def)
  show "estop_event (avoid_obstacles lnk (None # later) s)"
    unfolding run by simp
  show "sent (avoid_obstacles lnk (None # later) s) = sent s"
    unfolding run by simp
  show "avoid_obstacles lnk extra (avoid_obstacles lnk (None # later) s)
          = avoid_obstacles lnk (None # later) s"
    unfolding run by (rule avoid_obstacles_estop) simp
  show "safe_move_robot lnk dir stp (avoid_obstacles lnk (None # later) s)
          = avoid_obstacles lnk (None # later) s"
    unfolding run by (rule safe_move_robot_estop) simp
next
  assume below: "consecutive_fail s + 1 < SENSOR_FAILURE_LIMIT"
  show body: "loop_body lnk None s
          = (SensorFailure,
             s\<lparr>consecutive_fail := consecutive_fail s + 1, clock := clock s + 1 / 2\<rparr>)"
    using below by (simp add: loop_body_def sleep_def)
  show "avoid_obstacles lnk (None # later) s
          = avoid_obstacles lnk later
              (s\<lparr>consecutive_fail := consecutive_fail s + 1, clock := clock s + 1 / 2\<rparr>)"
    using assms by (simp add: body)
qed

text \<open>
  The scenario of five failed reads in a row: the fifth sets the flag; a sixth sample and
  a later dispatch change nothing. The fourth is still tolerated.
\<close>

theorem persistent_sensor_failure_is_fatal_witness:
  "\<not> estop_event ((initial_state 10)\<lparr>consecutive_fail := 4\<rparr>)
   \<and> SENSOR_FAILURE_LIMIT \<le> consecutive_fail ((initial_state 10)\<lparr>consecutive_fail := 4\<rparr>) + 1
   \<and> avoid_obstacles steady_link [None, Some 15] ((initial_state 10)\<lparr>consecutive_fail := 4\<rparr>)
       = (initial_state 10)\<lparr>consecutive_fail := 5, estop_event := True\<rparr>
   \<and> safe_move_robot steady_link FORWARD 1
        (avoid_obstacles steady_link [None, Some 15] ((initial_state 10)\<lparr>consecutive_fail := 4\<rparr>))
       = (initial_state 10)\<lparr>consecutive_fail := 5, estop_event := True\<rparr>
   \<and> \<not> estop_event three_failures
   \<and> consecutive_fail three_failures + 1 < SENSOR_FAILURE_LIMIT
   \<and> loop_body steady_link None three_failures
       = (SensorFailure, (initial_state 10)\<lparr>consecutive_fail := 4, clock := 21 / 2\<rparr>)
   \<and> avoid_obstacles steady_link [None, None, None, None, None, Some 15] (initial_state 10)
       = (initial_state 10)\<lparr>consecutive_fail := 5, estop_event := True, clock := 12\<rparr>"
  using persistent_sensor_failure_is_fatal
      [of "(initial_state 10)\<lparr>consecutive_fail := 4\<rparr>" steady_link "[Some 15]" "[]" FORWARD 1]
    persistent_sensor_failure_is_fatal [of three_failures steady_link "[]" "[]" FORWARD 1]
  by (simp add: three_failures_def initial_state_def SENSOR_FAILURE_LIMIT_def
        loop_body_def sleep_def)

lemma safe_move_robot_sent:
  "\<not> estop_event s \<Longrightarrow>
   sent (safe_move_robot lnk dir stp s) =
     sent s @ [\<lparr>direction = dir, step = max 1 (min stp MAX_STEP),
                issued_at = max (clock s) (last_cmd_ts s + MIN_COMMAND_INTERVAL)\<rparr>]"
  by (auto simp: safe_move_robot_def Let_def max_def)

lemma filtered_frame:
  "estop_event (filtered d s) = estop_event s"
  "sent (filtered d s) = sent s"
  "clock (filtered d s) = clock s"
  "last_cmd_ts (filtered d s) = last_cmd_ts s"
  "consecutive_close (filtered d s) = consecutive_close s"
  by (simp_all add: filtered_def)

lemma classify_distance_cases:
  "classify_distance filt = Hard \<longleftrightarrow> filt < HARD_STOP_CM"
  "classify_distance filt = Soft \<longleftrightarrow> HARD_STOP_CM \<le> filt \<and> filt < SAFE_DISTANCE_CM"
  "classify_distance filt = Clear \<longleftrightarrow> SAFE_DISTANCE_CM \<le> filt"
  by (auto simp: classify_distance_def config)

text \<open>The branch an iteration takes is the one of the level of the filtered distance.\<close>

lemma loop_body_branch:
  assumes "0 < distance" "distance \<le> 5000"
    and "median (buf_append distance (distance_buf s)) = Some filt"
  shows "fst (loop_body lnk (Some distance) s) =
           (case classify_distance filt of
              Hard \<Rightarrow> HardStop
            | Soft \<Rightarrow> if OBSTACLE_CONFIRM_READS \<le> consecutive_close s + 1
                       then ObstacleConfirmed else PathClear
            | Clear \<Rightarrow> PathClear)"
proof (cases "classify_distance filt")
  case Clear
  then have "SAFE_DISTANCE_CM \<le> filt"
    by (simp add: classify_distance_cases)
  from loop_body_clear [OF assms this, of lnk] Clear show ?thesis
    by simp
next
  case Soft
  then have "HARD_STOP_CM \<le> filt" "filt < SAFE_DISTANCE_CM"
    by (simp_all add: classify_distance_cases)
  from loop_body_soft [OF assms this, of lnk] Soft show ?thesis
    by (simp add: Let_def)
next
  case Hard
  then have "filt < HARD_STOP_CM"
    by (simp add: classify_distance_cases)
  from loop_body_hard [OF assms this, of lnk] Hard show ?thesis
    by simp
qed

lemma loop_body_close_count:
  assumes "0 < distance" "distance \<le> 5000"
    and "median (buf_append distance (distance_buf s)) = Some filt"
  shows "consecutive_close (snd (loop_body lnk (Some distance) s)) =
           (case classify_distance filt of
              Hard \<Rightarrow> consecutive_close s
            | Soft \<Rightarrow> if OBSTACLE_CONFIRM_READS \<le> consecutive_close s + 1
                       then 0 else consecutive_close s + 1
            | Clear \<Rightarrow> 0)"
proof (cases "classify_distance filt")
  case Clear
  then have "SAFE_DISTANCE_CM \<le> filt"
    by (simp add: classify_distance_cases)
  from loop_body_clear [OF assms this, of lnk] Clear show ?thesis
    by (simp add: sleep_def safe_move_robot_frame)
next
  case Soft
  then have "HARD_STOP_CM \<le> filt" "filt < SAFE_DISTANCE_CM"
    by (simp_all add: classify_distance_cases)
  from loop_body_soft [OF assms this, of lnk] Soft show ?thesis
    by (simp add: Let_def sleep_def safe_move_robot_frame)
next
  case Hard
  then have "filt < HARD_STOP_CM"
    by (simp add: classify_distance_cases)
  from loop_body_hard [OF assms this, of lnk] Hard show ?thesis
    by (simp add: safe_move_robot_frame filtered_frame)
qed

subsection \<open>Facts about the posture monitor\<close>

lemma classify_tilt_cases:
  "classify_tilt pitch roll = Hard \<longleftrightarrow> SAFE_TILT_TRIP \<le> \<bar>pitch\<bar> \<or> SAFE_TILT_TRIP \<le> \<bar>roll\<bar>"
  "classify_tilt pitch roll = Soft \<longleftrightarrow>
     \<bar>pitch\<bar> < SAFE_TILT_TRIP \<and> \<bar>roll\<bar> < SAFE_TILT_TRIP
     \<and> (SAFE_TILT_WARN \<le> \<bar>pitch\<bar> \<or> SAFE_TILT_WARN \<le> \<bar>roll\<bar>)"
  "classify_tilt pitch roll = Clear \<longleftrightarrow> \<bar>pitch\<bar> < SAFE_TILT_WARN \<and> \<bar>roll\<bar> < SAFE_TILT_WARN"
  by (auto simp: classify_tilt_def config)

text \<open>
  A request built by position never passes the constructor's assertion, so
  \<^verbatim>\<open>move_safe\<close> raises whenever it is not suppressed, and so does the recovery.
\<close>

lemma move_safe_cases:
  "move_safe lnk dir steps s =
     (if p_estop_event s then (None, s) else (Some AssertionError, s))"
  by (simp add: move_safe_def MoveRobot_init_def Let_def)

lemma recovery_sequence_cases:
  "recovery_sequence lnk s =
     (if p_estop_event s then (None, s) else (Some AssertionError, s))"
  by (simp add: recovery_sequence_def move_safe_cases)

text \<open>One iteration of the monitor, by the level of the sample.\<close>

lemma monitor_body_cases:
  "monitor_body lnk sample s =
     (case classify_tilt (fst sample) (snd sample) of
        Hard \<Rightarrow>
          if DEBOUNCE \<le> trip_count s + 1
          then ([TripNotice],
                if p_estop_event s
                then (None, s\<lparr>trip_count := 0, warn_count := 0,
                               p_clock := p_clock s + 1 / SAMPLE_HZ\<rparr>)
                else (Some AssertionError,
                      s\<lparr>trip_count := trip_count s + 1, warn_count := 0\<rparr>))
          else ([], None, s\<lparr>trip_count := trip_count s + 1, warn_count := 0,
                            p_clock := p_clock s + 1 / SAMPLE_HZ\<rparr>)
      | Soft \<Rightarrow>
          if DEBOUNCE \<le> warn_count s + 1
          then ([WarnNotice], None, s\<lparr>warn_count := 0, trip_count := 0,
                                      p_clock := p_clock s + 1 / SAMPLE_HZ\<rparr>)
          else ([], None, s\<lparr>warn_count := warn_count s + 1, trip_count := 0,
                            p_clock := p_clock s + 1 / SAMPLE_HZ\<rparr>)
      | Clear \<Rightarrow> ([], None, s\<lparr>warn_count := 0, trip_count := 0,
                               p_clock := p_clock s + 1 / SAMPLE_HZ\<rparr>))"
  by (auto simp: monitor_body_def classify_tilt_def recovery_sequence_cases Let_def DEBOUNCE_def)

lemma monitor_body_notices:
  "fst (monitor_body lnk sample s) =
     (case classify_tilt (fst sample) (snd sample) of
        Hard \<Rightarrow> if DEBOUNCE \<le> trip_count s + 1 then [TripNotice] else []
      | Soft \<Rightarrow> if DEBOUNCE \<le> warn_count s + 1 then [WarnNotice] else []
      | Clear \<Rightarrow> [])"
  by (simp add: monitor_body_cases split: hazard.splits)

lemma monitor_body_soft:
  "classify_tilt (fst sample) (snd sample) = Soft \<Longrightarrow>
   snd (monitor_body lnk sample s) =
     (None, s\<lparr>warn_count := (if DEBOUNCE \<le> warn_count s + 1 then 0 else warn_count s + 1),
              trip_count := 0, p_clock := p_clock s + 1 / SAMPLE_HZ\<rparr>)"
  by (simp add: monitor_body_cases)

lemma monitor_body_clear:
  "classify_tilt (fst sample) (snd sample) = Clear \<Longrightarrow>
   snd (monitor_body lnk sample s) =
     (None, s\<lparr>warn_count := 0, trip_count := 0, p_clock := p_clock s + 1 / SAMPLE_HZ\<rparr>)"
  by (simp add: monitor_body_cases)

lemma monitor_body_hard_pending:
  "classify_tilt (fst sample) (snd sample) = Hard \<Longrightarrow> trip_count s + 1 < DEBOUNCE \<Longrightarrow>
   monitor_body lnk sample s =
     ([], None, s\<lparr>trip_count := trip_count s + 1, warn_count := 0,
                  p_clock := p_clock s + 1 / SAMPLE_HZ\<rparr>)"
  by (simp add: monitor_body_cases)

lemma monitor_body_estop:
  "p_estop_event (snd (snd (monitor_body lnk sample s))) = p_estop_event s"
  by (simp add: monitor_body_cases split: hazard.splits)

lemma monitor_body_sent:
  "p_sent (snd (snd (monitor_body lnk sample s))) = p_sent s"
  by (simp add: monitor_body_cases split: hazard.splits)

subsection \<open>Hazard classification\<close>

text \<open>
  C8, as the scripts behave. A filtered distance is Hard exactly when it is strictly below
  \<^verbatim>\<open>HARD_STOP_CM\<close>, Soft exactly when it lies in the band from \<^verbatim>\<open>HARD_STOP_CM\<close>
  (included) to \<^verbatim>\<open>SAFE_DISTANCE_CM\<close> (excluded), and Clear otherwise; a filtered distance
  exactly equal to \<^verbatim>\<open>HARD_STOP_CM\<close> (8 cm) is Soft. A tilt sample is Hard exactly when
  the magnitude of pitch or of roll is at least \<^verbatim>\<open>SAFE_TILT_TRIP\<close>, Soft when neither
  is but one is at least \<^verbatim>\<open>SAFE_TILT_WARN\<close>, and Clear otherwise; a tilt exactly at the
  trip threshold is Hard. The branch the obstacle-avoidance loop takes and the notices of
  the posture monitor are determined by these levels.
\<close>

theorem classification_thresholds:
  "(classify_distance filt = Hard \<longleftrightarrow> filt < HARD_STOP_CM)
   \<and> (classify_distance filt = Soft \<longleftrightarrow> HARD_STOP_CM \<le> filt \<and> filt < SAFE_DISTANCE_CM)
   \<and> (classify_distance filt = Clear \<longleftrightarrow> SAFE_DISTANCE_CM \<le> filt)
   \<and> classify_distance HARD_STOP_CM = Soft
   \<and> (classify_tilt pitch roll = Hard \<longleftrightarrow>
        SAFE_TILT_TRIP \<le> \<bar>pitch\<bar> \<or> SAFE_TILT_TRIP \<le> \<bar>roll\<bar>)
   \<and> (classify_tilt pitch roll = Soft \<longleftrightarrow>
        \<bar>pitch\<bar> < SAFE_TILT_TRIP \<and> \<bar>roll\<bar> < SAFE_TILT_TRIP
        \<and> (SAFE_TILT_WARN \<le> \<bar>pitch\<bar> \<or> SAFE_TILT_WARN \<le> \<bar>roll\<bar>))
   \<and> (classify_tilt pitch roll = Clear \<longleftrightarrow>
        \<bar>pitch\<bar> < SAFE_TILT_WARN \<and> \<bar>roll\<bar> < SAFE_TILT_WARN)
   \<and> classify_tilt SAFE_TILT_TRIP 0 = Hard
   \<and> (0 < distance \<and> distance \<le> 5000
        \<and> median (buf_append distance (distance_buf s)) = Some filt \<longrightarrow>
        fst (loop_body lnk (Some distance) s) =
          (case classify_distance filt of
             Hard \<Rightarrow> HardStop
           | Soft \<Rightarrow> if OBSTACLE_CONFIRM_READS \<le> consecutive_close s + 1
                      then ObstacleConfirmed else PathClear
           | Clear \<Rightarrow> PathClear))
   \<and> fst (monitor_body lnk (pitch, roll) m) =
        (case classify_tilt pitch roll of
           Hard \<Rightarrow> if DEBOUNCE \<le> trip_count m + 1 then [TripNotice] else []
         | Soft \<Rightarrow> if DEBOUNCE \<le> warn_count m + 1 then [WarnNotice] else []
         | Clear \<Rightarrow> [])"
proof -
  have "classify_distance HARD_STOP_CM = Soft"
    by (simp add: classify_distance_def config)
  moreover have "classify_tilt SAFE_TILT_TRIP 0 = Hard"
    by (simp add: classify_tilt_def config)
  moreover have "fst (monitor_body lnk (pitch, roll) m) =
        (case classify_tilt pitch roll of
           Hard \<Rightarrow> if DEBOUNCE \<le> trip_count m + 1 then [TripNotice] else []
         | Soft \<Rightarrow> if DEBOUNCE \<le> warn_count m + 1 then [WarnNotice] else []
         | Clear \<Rightarrow> [])"
    using monitor_body_notices [of lnk "(pitch, roll)" m] by simp
  ultimately show ?thesis
    using classify_distance_cases [of filt] classify_tilt_cases [of pitch roll]
      loop_body_branch [of distance s filt lnk]
    by blast
qed

theorem classification_thresholds_witness:
  "(0::rat) < 8 \<and> (8::rat) \<le> 5000
   \<and> median (buf_append 8 (distance_buf (initial_state 10))) = Some 8
   \<and> classify_distance 8 = Soft
   \<and> fst (loop_body steady_link (Some 8) (initial_state 10)) = PathClear
   \<and> classify_tilt 18 0 = Hard
   \<and> fst (monitor_body steady_link (18, 0) (initial_posture_state 10)) = []"
  using classification_thresholds
    [of 8 18 0 8 "initial_state 10" steady_link "initial_posture_state 10"]
  by (simp add: config initial_state_def initial_posture_state_def median_def buf_append_def)

text \<open>
  The claim C8 as it is written fails at the boundary: a filtered distance of exactly
  8 cm is not Hard, and the loop moves forward instead of taking the hard stop.
\<close>

theorem hard_boundary_counterexample:
  "classify_distance 8 \<noteq> Hard
   \<and> (8::rat) \<le> HARD_STOP_CM
   \<and> loop_body steady_link (Some 8) (initial_state 10)
       = (PathClear,
          \<lparr>estop_event = False, last_cmd_ts = 21 / 2, distance_buf = [8],
           consecutive_close = 1, consecutive_fail = 0, clock = 25 / 2,
           sent = [\<lparr>direction = FORWARD, step = 1, issued_at = 10\<rparr>]\<rparr>)"
  by (simp add: classify_distance_def loop_body_def median_def buf_append_def
        safe_move_robot_def sleep_def steady_link_def initial_state_def Let_def config)

subsection \<open>The reaction to a hard hazard\<close>

text \<open>
  C2, as the scripts behave. In the obstacle-avoidance loop a single filtered reading
  below the hard threshold (5 cm with \<^verbatim>\<open>HARD_STOP_CM\<close> = 8) is acted on in that same
  iteration, whatever the value of the debounce counter: the hard stop is taken, exactly
  one command is dispatched, a backward move of 2 steps, and the e-stop flag is set. In
  the posture monitor the reaction to a hard (trip) sample is debounced: a trip sample
  that leaves the trip counter below \<^verbatim>\<open>DEBOUNCE\<close> (3) only counts; it announces
  nothing, dispatches nothing, and the monitor goes on.
\<close>

theorem hard_hazard_reaction:
  "(\<not> estop_event s \<and> 0 < distance \<and> distance \<le> 5000
      \<and> median (buf_append distance (distance_buf s)) = Some filt
      \<and> filt < HARD_STOP_CM \<longrightarrow>
      fst (loop_body lnk (Some distance) s) = HardStop
      \<and> sent (snd (loop_body lnk (Some distance) s)) =
          sent s @ [\<lparr>direction = BACKWARD, step = 2,
                     issued_at = max (clock s) (last_cmd_ts s + MIN_COMMAND_INTERVAL)\<rparr>]
      \<and> estop_event (snd (loop_body lnk (Some distance) s)))
   \<and> (classify_tilt pitch roll = Hard \<and> trip_count m + 1 < DEBOUNCE \<longrightarrow>
      monitor_body lnk (pitch, roll) m =
        ([], None, m\<lparr>trip_count := trip_count m + 1, warn_count := 0,
                       p_clock := p_clock m + 1 / SAMPLE_HZ\<rparr>)
      \<and> p_sent (snd (snd (monitor_body lnk (pitch, roll) m))) = p_sent m)"
proof (intro conjI impI)
  assume a: "\<not> estop_event s \<and> 0 < distance \<and> distance \<le> 5000
      \<and> median (buf_append distance (distance_buf s)) = Some filt \<and> filt < HARD_STOP_CM"
  then have body: "loop_body lnk (Some distance) s =
      (HardStop, (safe_move_robot lnk BACKWARD 2 (filtered distance s))\<lparr>estop_event := True\<rparr>)"
    by (simp add: loop_body_hard)
  show "fst (loop_body lnk (Some distance) s) = HardStop"
    by (simp add: body)
  show "estop_event (snd (loop_body lnk (Some distance) s))"
    by (simp add: body)
  from a have "\<not> estop_event (filtered distance s)"
    by (simp add: filtered_frame)
  then show "sent (snd (loop_body lnk (Some distance) s)) =
          sent s @ [\<lparr>direction = BACKWARD, step = 2,
                     issued_at = max (clock s) (last_cmd_ts s + MIN_COMMAND_INTERVAL)\<rparr>]"
    by (simp add: body safe_move_robot_sent filtered_frame MAX_STEP_def)
next
  assume a: "classify_tilt pitch roll = Hard \<and> trip_count m + 1 < DEBOUNCE"
  then show "monitor_body lnk (pitch, roll) m =
        ([], None, m\<lparr>trip_count := trip_count m + 1, warn_count := 0,
                       p_clock := p_clock m + 1 / SAMPLE_HZ\<rparr>)"
    by (simp add: monitor_body_hard_pending)
  show "p_sent (snd (snd (monitor_body lnk (pitch, roll) m))) = p_sent m"
    by (rule monitor_body_sent)
qed

theorem hard_hazard_reaction_witness:
  "\<not> estop_event (initial_state 10) \<and> (0::rat) < 5 \<and> (5::rat) \<le> 5000
   \<and> median (buf_append 5 (distance_buf (initial_state 10))) = Some 5
   \<and> (5::rat) < HARD_STOP_CM
   \<and> fst (loop_body steady_link (Some 5) (initial_state 10)) = HardStop
   \<and> sent (snd (loop_body steady_link (Some 5) (initial_state 10)))
       = [\<lparr>direction = BACKWARD, step = 2, issued_at = 10\<rparr>]
   \<and> classify_tilt 20 0 = Hard
   \<and> trip_count (initial_posture_state 10) + 1 < DEBOUNCE
   \<and> monitor_body steady_link (20, 0) (initial_posture_state 10)
       = ([], None, (initial_posture_state 10)\<lparr>trip_count := 1, p_clock := 201 / 20\<rparr>)"
  using hard_hazard_reaction
      [of "initial_state 10" 5 5 steady_link 20 0 "initial_posture_state 10"]
  by (simp add: config initial_state_def initial_posture_state_def
        median_def buf_append_def classify_tilt_def steady_link_def)

text \<open>
  The claim C2 as it is written fails in the posture monitor: a single sample beyond the
  trip threshold (20 degrees against 18) is not acted on, and neither is a second one in
  a row: nothing is announced and no command is dispatched.
\<close>

theorem hard_hazard_debounced_counterexample:
  "SAFE_TILT_TRIP \<le> \<bar>20\<bar>
   \<and> posture_monitor steady_link [(20, 0)] (initial_posture_state 10)
       = ([], None, (initial_posture_state 10)\<lparr>trip_count := 1, p_clock := 201 / 20\<rparr>)
   \<and> posture_monitor steady_link [(20, 0), (20, 0)] (initial_posture_state 10)
       = ([], None, (initial_posture_state 10)\<lparr>trip_count := 2, p_clock := 101 / 10\<rparr>)"
  by (simp add: posture_monitor_def monitor_body_def initial_posture_state_def Let_def config)

subsection \<open>After a hard stop\<close>

text \<open>
  C3, as the obstacle-avoidance script behaves. After a hard-hazard trip the loop
  performs the back-off, one backward command of 2 steps, and then sets the e-stop flag
  and ends: the hard stop is terminal. The samples that follow are not processed, and
  every later call of the gateway is suppressed.
\<close>

theorem hard_stop_aftermath:
  assumes "\<not> estop_event s" and "0 < distance" and "distance \<le> 5000"
    and "median (buf_append distance (distance_buf s)) = Some filt"
    and "filt < HARD_STOP_CM"
  shows "avoid_obstacles lnk (Some distance # later) s = snd (loop_body lnk (Some distance) s)
         \<and> sent (avoid_obstacles lnk (Some distance # later) s) =
             sent s @ [\<lparr>direction = BACKWARD, step = 2,
                        issued_at = max (clock s) (last_cmd_ts s + MIN_COMMAND_INTERVAL)\<rparr>]
         \<and> estop_event (avoid_obstacles lnk (Some distance # later) s)
         \<and> avoid_obstacles lnk extra (avoid_obstacles lnk (Some distance # later) s)
             = avoid_obstacles lnk (Some distance # later) s
         \<and> safe_move_robot lnk dir steps (avoid_obstacles lnk (Some distance # later) s)
             = avoid_obstacles lnk (Some distance # later) s"
proof -
  have body: "loop_body lnk (Some distance) s =
      (HardStop, (safe_move_robot lnk BACKWARD 2 (filtered distance s))\<lparr>estop_event := True\<rparr>)"
    using assms by (simp add: loop_body_hard)
  have run: "avoid_obstacles lnk (Some distance # later) s
      = (safe_move_robot lnk BACKWARD 2 (filtered distance s))\<lparr>estop_event := True\<rparr>"
    using assms(1) by (simp add: body)
  have live: "\<not> estop_event (filtered distance s)"
    using assms(1) by (simp add: filtered_frame)
  have "avoid_obstacles lnk (Some distance # later) s = snd (loop_body lnk (Some distance) s)"
    unfolding run body by simp
  moreover have "sent (avoid_obstacles lnk (Some distance # later) s) =
      sent s @ [\<lparr>direction = BACKWARD, step = 2,
                 issued_at = max (clock s) (last_cmd_ts s + MIN_COMMAND_INTERVAL)\<rparr>]"
    unfolding run using live by (simp add: safe_move_robot_sent filtered_frame MAX_STEP_def)
  moreover have "estop_event (avoid_obstacles lnk (Some distance # later) s)"
    unfolding run by simp
  moreover have "avoid_obstacles lnk extra (avoid_obstacles lnk (Some distance # later) s)
      = avoid_obstacles lnk (Some distance # later) s"
    unfolding run by (rule avoid_obstacles_estop) simp
  moreover have "safe_move_robot lnk dir steps (avoid_obstacles lnk (Some distance # later) s)
      = avoid_obstacles lnk (Some distance # later) s"
    unfolding run by (rule safe_move_robot_estop) simp
  ultimately show ?thesis by simp
qed

theorem hard_stop_aftermath_witness:
  "\<not> estop_event (initial_state 10) \<and> (0::rat) < 5 \<and> (5::rat) \<le> 5000
   \<and> median (buf_append 5 (distance_buf (initial_state 10))) = Some 5
   \<and> (5::rat) < HARD_STOP_CM
   \<and> sent (avoid_obstacles steady_link [Some 5, Some 30] (initial_state 10))
       = [\<lparr>direction = BACKWARD, step = 2, issued_at = 10\<rparr>]
   \<and> estop_event (avoid_obstacles steady_link [Some 5, Some 30] (initial_state 10))"
  using hard_stop_aftermath
      [of "initial_state 10" 5 5 steady_link "[Some 30]" "[]" FORWARD 1]
  by (simp add: config initial_state_def median_def buf_append_def loop_body_def
        safe_move_robot_def steady_link_def Let_def)

text \<open>
  The claim C3 as it is written fails in the obstacle-avoidance loop: after the hard stop
  at 5 cm the flag is set, the next sample (30 cm, path clear) is not processed, and a
  later forward command is not dispatched. No e-stop was requested and no read failed.
\<close>

theorem hard_stop_terminal_counterexample:
  "avoid_obstacles steady_link [Some 5, Some 30] (initial_state 10)
     = \<lparr>estop_event = True, last_cmd_ts = 21 / 2, distance_buf = [5],
        consecutive_close = 0, consecutive_fail = 0, clock = 21 / 2,
        sent = [\<lparr>direction = BACKWARD, step = 2, issued_at = 10\<rparr>]\<rparr>
   \<and> sent (safe_move_robot steady_link FORWARD 1
             (avoid_obstacles steady_link [Some 5, Some 30] (initial_state 10)))
       = [\<lparr>direction = BACKWARD, step = 2, issued_at = 10\<rparr>]"
  by (simp add: loop_body_def median_def buf_append_def safe_move_robot_def
        steady_link_def initial_state_def Let_def config)

subsection \<open>Facts about the rate limiter\<close>














text \<open>The steps of \<^verbatim>\<open>safe_move\<close>, run without interruption, are \<^verbatim>\<open>safe_move\<close>.\<close>

lemma safe_move_phases:
  "safe_move lnk dir steps s =
     (case safe_move_start dir steps s of
        None \<Rightarrow> (Returned False, s)
      | Some c \<Rightarrow>
          safe_move_resume (issued_at c + fst (lnk (length (b_sent s)))) (safe_move_execute c s))"
  by (simp add: safe_move_def safe_move_start_def safe_move_execute_def safe_move_resume_def
        Let_def)

subsection \<open>The rate limiter\<close>




subsection \<open>Facts about runs of the posture monitor\<close>

lemma two_samples:
  assumes "int (length samples) = DEBOUNCE - 1"
  obtains a b where "samples = [a, b]"
proof -
  from assms have "length samples = Suc (Suc 0)"
    by (simp add: DEBOUNCE_def)
  then obtain a rest where 1: "samples = a # rest" and "length rest = Suc 0"
    by (auto simp: length_Suc_conv)
  then obtain b where "rest = [b]"
    by (auto simp: length_Suc_conv)
  with 1 that show thesis by simp
qed

lemma debounced_step:
  "debounced m \<Longrightarrow> fst (snd (monitor_body lnk sample m)) = None \<Longrightarrow>
   debounced (snd (snd (monitor_body lnk sample m)))"
  by (auto simp: debounced_def monitor_body_cases DEBOUNCE_def split: hazard.splits if_splits)

text \<open>
  Two samples of one level from a counter of zero and then a sample of another level:
  the notices of the run and the state it ends in.
\<close>

lemma hard_run_then_other:
  assumes "trip_count m = 0" and "int (length samples) = DEBOUNCE - 1"
    and "\<forall>x\<in>set samples. classify_tilt (fst x) (snd x) = Hard"
    and "classify_tilt (fst other) (snd other) \<noteq> Hard"
  shows "TripNotice \<notin> set (fst (monitor_loop lnk (samples @ [other]) m))"
    and "\<not> p_estop_event m \<Longrightarrow>
         fst (snd (monitor_loop lnk (samples @ [other]) m)) = None
         \<and> trip_count (snd (snd (monitor_loop lnk (samples @ [other]) m))) = 0"
proof -
  from assms(2) obtain a b where ab: "samples = [a, b]"
    by (rule two_samples)
  with assms(3) have hard: "classify_tilt (fst a) (snd a) = Hard"
    "classify_tilt (fst b) (snd b) = Hard"
    by simp_all
  from assms(4) have other: "classify_tilt (fst other) (snd other) = Soft
      \<or> classify_tilt (fst other) (snd other) = Clear"
    by (cases "classify_tilt (fst other) (snd other)") simp_all
  show "TripNotice \<notin> set (fst (monitor_loop lnk (samples @ [other]) m))"
    using assms(1) hard other
    by (auto simp: ab monitor_body_cases DEBOUNCE_def)
  show "fst (snd (monitor_loop lnk (samples @ [other]) m)) = None
      \<and> trip_count (snd (snd (monitor_loop lnk (samples @ [other]) m))) = 0"
    if "\<not> p_estop_event m"
    using that assms(1) hard other
    by (auto simp: ab monitor_body_cases DEBOUNCE_def)
qed

lemma soft_run_then_other:
  assumes "warn_count m = 0" and "int (length samples) = DEBOUNCE - 1"
    and "\<forall>x\<in>set samples. classify_tilt (fst x) (snd x) = Soft"
    and "classify_tilt (fst other) (snd other) \<noteq> Soft"
  shows "WarnNotice \<notin> set (fst (monitor_loop lnk (samples @ [other]) m))"
    and "\<not> p_estop_event m \<Longrightarrow>
         fst (snd (monitor_loop lnk (samples @ [other]) m)) = None
         \<and> warn_count (snd (snd (monitor_loop lnk (samples @ [other]) m))) = 0"
proof -
  from assms(2) obtain a b where ab: "samples = [a, b]"
    by (rule two_samples)
  with assms(3) have soft: "classify_tilt (fst a) (snd a) = Soft"
    "classify_tilt (fst b) (snd b) = Soft"
    by simp_all
  from assms(4) have other: "classify_tilt (fst other) (snd other) = Hard
      \<or> classify_tilt (fst other) (snd other) = Clear"
    by (cases "classify_tilt (fst other) (snd other)") simp_all
  show "WarnNotice \<notin> set (fst (monitor_loop lnk (samples @ [other]) m))"
    using assms(1) soft other
    by (auto simp: ab monitor_body_cases DEBOUNCE_def)
  show "fst (snd (monitor_loop lnk (samples @ [other]) m)) = None
      \<and> warn_count (snd (snd (monitor_loop lnk (samples @ [other]) m))) = 0"
    if "\<not> p_estop_event m"
    using that assms(1) soft other
    by (auto simp: ab monitor_body_cases DEBOUNCE_def)
qed

lemma loop_body_buf:
  assumes "0 < distance" "distance \<le> 5000"
  shows "distance_buf (snd (loop_body lnk (Some distance) s))
           = buf_append distance (distance_buf s)"
proof -
  obtain filt where m: "median (buf_append distance (distance_buf s)) = Some filt"
    using median_buf_append by blast
  show ?thesis
  proof (cases "classify_distance filt")
    case Clear
    then have "SAFE_DISTANCE_CM \<le> filt"
      by (simp add: classify_distance_cases)
    from loop_body_clear [OF assms m this, of lnk] show ?thesis
      by (simp add: sleep_def safe_move_robot_frame filtered_def)
  next
    case Soft
    then have "HARD_STOP_CM \<le> filt" "filt < SAFE_DISTANCE_CM"
      by (simp_all add: classify_distance_cases)
    from loop_body_soft [OF assms m this, of lnk] show ?thesis
      by (simp add: Let_def sleep_def safe_move_robot_frame filtered_def)
  next
    case Hard
    then have "filt < HARD_STOP_CM"
      by (simp add: classify_distance_cases)
    from loop_body_hard [OF assms m this, of lnk] show ?thesis
      by (simp add: safe_move_robot_frame filtered_def)
  qed
qed

subsection \<open>Debounce\<close>

text \<open>
  C7, as the scripts behave. In the posture monitor, under every sequence of samples: an
  iteration increments only the counter of the level of the sample (trip for Hard, warn
  for Soft; a Clear sample has no counter) and sets the counter of the other level to
  zero; the notice of a level is announced only by a sample of that level that brings its
  counter to \<^verbatim>\<open>DEBOUNCE\<close>, at most one notice per iteration; with the warn notice the
  warn counter is reset to zero. As long as the monitor runs, the counters stay between 0
  and \<^verbatim>\<open>DEBOUNCE - 1\<close> between iterations, so a notice is announced exactly when the
  counter reaches \<^verbatim>\<open>DEBOUNCE\<close>. In the obstacle-avoidance loop a Soft reading increments
  the single counter \<^verbatim>\<open>_consecutive_close\<close>, a Clear reading resets it, the obstacle is
  confirmed only when the counter reaches \<^verbatim>\<open>OBSTACLE_CONFIRM_READS\<close>, which resets it,
  and a Hard reading takes the hard stop and leaves the counter as it is. In particular,
  starting from a counter of zero, a level observed one time less than the confirmation
  count in a row and then followed by another level is never confirmed, and in the
  posture monitor its counter is back at zero.
\<close>

theorem debounce_counters:
  "fst (monitor_body lnk sample m) =
     (case classify_tilt (fst sample) (snd sample) of
        Hard \<Rightarrow> if DEBOUNCE \<le> trip_count m + 1 then [TripNotice] else []
      | Soft \<Rightarrow> if DEBOUNCE \<le> warn_count m + 1 then [WarnNotice] else []
      | Clear \<Rightarrow> [])
   \<and> (classify_tilt (fst sample) (snd sample) = Hard \<and> trip_count m + 1 < DEBOUNCE \<longrightarrow>
        snd (monitor_body lnk sample m) =
          (None, m\<lparr>trip_count := trip_count m + 1, warn_count := 0,
                    p_clock := p_clock m + 1 / SAMPLE_HZ\<rparr>))
   \<and> (classify_tilt (fst sample) (snd sample) = Soft \<longrightarrow>
        snd (monitor_body lnk sample m) =
          (None, m\<lparr>warn_count := (if DEBOUNCE \<le> warn_count m + 1 then 0
                                     else warn_count m + 1),
                    trip_count := 0, p_clock := p_clock m + 1 / SAMPLE_HZ\<rparr>))
   \<and> (classify_tilt (fst sample) (snd sample) = Clear \<longrightarrow>
        snd (monitor_body lnk sample m) =
          (None, m\<lparr>warn_count := 0, trip_count := 0,
                    p_clock := p_clock m + 1 / SAMPLE_HZ\<rparr>))
   \<and> (debounced m \<longrightarrow>
        (TripNotice \<in> set (fst (monitor_body lnk sample m)) \<longleftrightarrow>
           classify_tilt (fst sample) (snd sample) = Hard \<and> trip_count m + 1 = DEBOUNCE)
        \<and> (WarnNotice \<in> set (fst (monitor_body lnk sample m)) \<longleftrightarrow>
             classify_tilt (fst sample) (snd sample) = Soft \<and> warn_count m + 1 = DEBOUNCE)
        \<and> (fst (snd (monitor_body lnk sample m)) = None \<longrightarrow>
             debounced (snd (snd (monitor_body lnk sample m)))))
   \<and> (trip_count m = 0 \<and> int (length samples) = DEBOUNCE - 1
        \<and> (\<forall>x\<in>set samples. classify_tilt (fst x) (snd x) = Hard)
        \<and> classify_tilt (fst other) (snd other) \<noteq> Hard \<longrightarrow>
        TripNotice \<notin> set (fst (monitor_loop lnk (samples @ [other]) m))
        \<and> (\<not> p_estop_event m \<longrightarrow>
             fst (snd (monitor_loop lnk (samples @ [other]) m)) = None
             \<and> trip_count (snd (snd (monitor_loop lnk (samples @ [other]) m))) = 0))
   \<and> (warn_count m = 0 \<and> int (length samples) = DEBOUNCE - 1
        \<and> (\<forall>x\<in>set samples. classify_tilt (fst x) (snd x) = Soft)
        \<and> classify_tilt (fst other) (snd other) \<noteq> Soft \<longrightarrow>
        WarnNotice \<notin> set (fst (monitor_loop lnk (samples @ [other]) m))
        \<and> (\<not> p_estop_event m \<longrightarrow>
             fst (snd (monitor_loop lnk (samples @ [other]) m)) = None
             \<and> warn_count (snd (snd (monitor_loop lnk (samples @ [other]) m))) = 0))
   \<and> (0 < distance \<and> distance \<le> 5000
        \<and> median (buf_append distance (distance_buf s)) = Some filt \<longrightarrow>
        consecutive_close (snd (loop_body lnk (Some distance) s)) =
          (case classify_distance filt of
             Hard \<Rightarrow> consecutive_close s
           | Soft \<Rightarrow> if OBSTACLE_CONFIRM_READS \<le> consecutive_close s + 1
                      then 0 else consecutive_close s + 1
           | Clear \<Rightarrow> 0)
        \<and> (fst (loop_body lnk (Some distance) s) = ObstacleConfirmed \<longleftrightarrow>
             classify_distance filt = Soft
             \<and> OBSTACLE_CONFIRM_READS \<le> consecutive_close s + 1))
   \<and> (consecutive_close s = 0 \<and> 0 < distance \<and> distance \<le> 5000
        \<and> median (buf_append distance (distance_buf s)) = Some filt
        \<and> classify_distance filt = Soft
        \<and> 0 < next_distance \<and> next_distance \<le> 5000
        \<and> median (buf_append next_distance (buf_append distance (distance_buf s)))
             = Some next_filt
        \<and> classify_distance next_filt \<noteq> Soft \<longrightarrow>
        fst (loop_body lnk (Some distance) s) = PathClear
        \<and> fst (loop_body lnk (Some next_distance) (snd (loop_body lnk (Some distance) s)))
             \<noteq> ObstacleConfirmed)"
proof (intro conjI impI)
  show "fst (monitor_body lnk sample m) =
     (case classify_tilt (fst sample) (snd sample) of
        Hard \<Rightarrow> if DEBOUNCE \<le> trip_count m + 1 then [TripNotice] else []
      | Soft \<Rightarrow> if DEBOUNCE \<le> warn_count m + 1 then [WarnNotice] else []
      | Clear \<Rightarrow> [])"
    by (rule monitor_body_notices)
next
  assume "classify_tilt (fst sample) (snd sample) = Hard \<and> trip_count m + 1 < DEBOUNCE"
  then show "snd (monitor_body lnk sample m) =
      (None, m\<lparr>trip_count := trip_count m + 1, warn_count := 0,
                p_clock := p_clock m + 1 / SAMPLE_HZ\<rparr>)"
    by (simp add: monitor_body_hard_pending)
next
  assume "classify_tilt (fst sample) (snd sample) = Soft"
  then show "snd (monitor_body lnk sample m) =
      (None, m\<lparr>warn_count := (if DEBOUNCE \<le> warn_count m + 1 then 0
                                 else warn_count m + 1),
                trip_count := 0, p_clock := p_clock m + 1 / SAMPLE_HZ\<rparr>)"
    by (rule monitor_body_soft)
next
  assume "classify_tilt (fst sample) (snd sample) = Clear"
  then show "snd (monitor_body lnk sample m) =
      (None, m\<lparr>warn_count := 0, trip_count := 0, p_clock := p_clock m + 1 / SAMPLE_HZ\<rparr>)"
    by (rule monitor_body_clear)
next
  assume inv: "debounced m"
  then show "TripNotice \<in> set (fst (monitor_body lnk sample m)) \<longleftrightarrow>
      classify_tilt (fst sample) (snd sample) = Hard \<and> trip_count m + 1 = DEBOUNCE"
    by (auto simp: monitor_body_notices debounced_def split: hazard.splits if_splits)
  from inv show "WarnNotice \<in> set (fst (monitor_body lnk sample m)) \<longleftrightarrow>
      classify_tilt (fst sample) (snd sample) = Soft \<and> warn_count m + 1 = DEBOUNCE"
    by (auto simp: monitor_body_notices debounced_def split: hazard.splits if_splits)
  assume "fst (snd (monitor_body lnk sample m)) = None"
  with inv show "debounced (snd (snd (monitor_body lnk sample m)))"
    by (rule debounced_step)
next
  assume a: "trip_count m = 0 \<and> int (length samples) = DEBOUNCE - 1
        \<and> (\<forall>x\<in>set samples. classify_tilt (fst x) (snd x) = Hard)
        \<and> classify_tilt (fst other) (snd other) \<noteq> Hard"
  then show "TripNotice \<notin> set (fst (monitor_loop lnk (samples @ [other]) m))"
    by (intro hard_run_then_other(1)) simp_all
  assume "\<not> p_estop_event m"
  with a have "fst (snd (monitor_loop lnk (samples @ [other]) m)) = None
      \<and> trip_count (snd (snd (monitor_loop lnk (samples @ [other]) m))) = 0"
    by (intro hard_run_then_other(2)) simp_all
  then show "fst (snd (monitor_loop lnk (samples @ [other]) m)) = None"
    and "trip_count (snd (snd (monitor_loop lnk (samples @ [other]) m))) = 0"
    by simp_all
next
  assume a: "warn_count m = 0 \<and> int (length samples) = DEBOUNCE - 1
        \<and> (\<forall>x\<in>set samples. classify_tilt (fst x) (snd x) = Soft)
        \<and> classify_tilt (fst other) (snd other) \<noteq> Soft"
  then show "WarnNotice \<notin> set (fst (monitor_loop lnk (samples @ [other]) m))"
    by (intro soft_run_then_other(1)) simp_all
  assume "\<not> p_estop_event m"
  with a have "fst (snd (monitor_loop lnk (samples @ [other]) m)) = None
      \<and> warn_count (snd (snd (monitor_loop lnk (samples @ [other]) m))) = 0"
    by (intro soft_run_then_other(2)) simp_all
  then show "fst (snd (monitor_loop lnk (samples @ [other]) m)) = None"
    and "warn_count (snd (snd (monitor_loop lnk (samples @ [other]) m))) = 0"
    by simp_all
next
  assume a: "0 < distance \<and> distance \<le> 5000
        \<and> median (buf_append distance (distance_buf s)) = Some filt"
  then show "consecutive_close (snd (loop_body lnk (Some distance) s)) =
          (case classify_distance filt of
             Hard \<Rightarrow> consecutive_close s
           | Soft \<Rightarrow> if OBSTACLE_CONFIRM_READS \<le> consecutive_close s + 1
                      then 0 else consecutive_close s + 1
           | Clear \<Rightarrow> 0)"
    by (simp add: loop_body_close_count)
  from a show "fst (loop_body lnk (Some distance) s) = ObstacleConfirmed \<longleftrightarrow>
             classify_distance filt = Soft
             \<and> OBSTACLE_CONFIRM_READS \<le> consecutive_close s + 1"
    by (simp add: loop_body_branch split: hazard.splits)
next
  assume a: "consecutive_close s = 0 \<and> 0 < distance \<and> distance \<le> 5000
        \<and> median (buf_append distance (distance_buf s)) = Some filt
        \<and> classify_distance filt = Soft
        \<and> 0 < next_distance \<and> next_distance \<le> 5000
        \<and> median (buf_append next_distance (buf_append distance (distance_buf s)))
             = Some next_filt
        \<and> classify_distance next_filt \<noteq> Soft"
  then show "fst (loop_body lnk (Some distance) s) = PathClear"
    by (simp add: loop_body_branch OBSTACLE_CONFIRM_READS_def)
  from a have "distance_buf (snd (loop_body lnk (Some distance) s))
      = buf_append distance (distance_buf s)"
    by (simp add: loop_body_buf)
  with a have "median (buf_append next_distance
      (distance_buf (snd (loop_body lnk (Some distance) s)))) = Some next_filt"
    by simp
  with a show "fst (loop_body lnk (Some next_distance) (snd (loop_body lnk (Some distance) s)))
      \<noteq> ObstacleConfirmed"
    by (simp add: loop_body_branch split: hazard.splits)
qed

text \<open>
  Two trip samples and a level sample announce nothing, and so do two warn samples and a
  level sample. One close reading followed by a clear one confirms no obstacle.
\<close>

theorem debounce_counters_witness:
  "debounced (initial_posture_state 10)
   \<and> \<not> p_estop_event (initial_posture_state 10)
   \<and> trip_count (initial_posture_state 10) = 0
   \<and> warn_count (initial_posture_state 10) = 0
   \<and> int (length [(20::rat, 0::rat), (20, 0)]) = DEBOUNCE - 1
   \<and> classify_tilt 20 0 = Hard \<and> classify_tilt 12 0 = Soft \<and> classify_tilt 0 0 = Clear
   \<and> trip_count (initial_posture_state 10) + 1 < DEBOUNCE
   \<and> monitor_loop steady_link [(20, 0), (20, 0), (0, 0)] (initial_posture_state 10)
       = ([], None, (initial_posture_state 10)\<lparr>p_clock := 203 / 20\<rparr>)
   \<and> monitor_loop steady_link [(12, 0), (12, 0), (0, 0)] (initial_posture_state 10)
       = ([], None, (initial_posture_state 10)\<lparr>p_clock := 203 / 20\<rparr>)
   \<and> monitor_body steady_link (12, 0) ((initial_posture_state 10)\<lparr>warn_count := 2\<rparr>)
       = ([WarnNotice], None, (initial_posture_state 10)\<lparr>p_clock := 201 / 20\<rparr>)
   \<and> consecutive_close (initial_state 10) = 0
   \<and> (0::rat) < 15 \<and> (15::rat) \<le> 5000 \<and> (0::rat) < 30 \<and> (30::rat) \<le> 5000
   \<and> median (buf_append 15 (distance_buf (initial_state 10))) = Some 15
   \<and> classify_distance 15 = Soft
   \<and> median (buf_append 30 (buf_append 15 (distance_buf (initial_state 10)))) = Some (45 / 2)
   \<and> classify_distance (45 / 2) = Clear
   \<and> fst (loop_body steady_link (Some 15) (initial_state 10)) = PathClear
   \<and> fst (loop_body steady_link (Some 30)
             (snd (loop_body steady_link (Some 15) (initial_state 10)))) = PathClear"
  using debounce_counters
      [of steady_link "(20, 0)" "initial_posture_state 10" "[(20, 0), (20, 0)]" "(0, 0)"
          15 "initial_state 10" 15 30 "45 / 2"]
    debounce_counters
      [of steady_link "(12, 0)" "(initial_posture_state 10)\<lparr>warn_count := 2\<rparr>"
          "[(12, 0), (12, 0)]" "(0, 0)" 15 "initial_state 10" 15 30 "45 / 2"]
    debounce_counters
      [of steady_link "(0, 0)" "initial_posture_state 10" "[(12, 0), (12, 0)]" "(0, 0)"
          15 "initial_state 10" 15 30 "45 / 2"]
  by (simp add: debounced_def initial_posture_state_def initial_state_def classify_tilt_def
        classify_distance_def monitor_body_def recovery_sequence_def move_safe_def
        MoveRobot_init_def clamp_def loop_body_def safe_move_robot_def sleep_def median_def
        buf_append_def steady_link_def Let_def config)

text \<open>
  The claim C7 as it is written fails in the obstacle-avoidance loop for the counters of
  the other levels: after a reading of 10 cm (Soft, the counter goes to 1), a reading of
  4 cm gives the filtered distance 7 cm, which is Hard, and the counter of close readings
  is still 1 after that iteration, not reset to zero.
\<close>

theorem close_count_kept_counterexample:
  "median (buf_append 4 (buf_append 10 [])) = Some 7
   \<and> classify_distance 7 = Hard
   \<and> consecutive_close (snd (loop_body steady_link (Some 10) (initial_state 10))) = 1
   \<and> fst (loop_body steady_link (Some 4)
            (snd (loop_body steady_link (Some 10) (initial_state 10)))) = HardStop
   \<and> consecutive_close
        (snd (loop_body steady_link (Some 4)
               (snd (loop_body steady_link (Some 10) (initial_state 10))))) = 1"
  by (simp add: classify_distance_def loop_body_def median_def buf_append_def
        safe_move_robot_def sleep_def steady_link_def initial_state_def Let_def config)

subsection \<open>Manual commands under override\<close>

lemma manual_move_sent: "o_sent (snd (manual_move name s)) = o_sent s"
  by (simp add: manual_move_def safe_move_override_def split: sum.splits)

lemma manual_loop_sent: "o_sent (snd (manual_loop entries s)) = o_sent s"
proof (induction entries arbitrary: s)
  case Nil
  show ?case by simp
next
  case (Cons e rest)
  obtain delay entry where e: "e = (delay, entry)"
    by (cases e)
  have step: "o_sent (snd (case manual_move name s1 of
                   (Some err, s2) \<Rightarrow> (Some err, s2)
                 | (None, s2) \<Rightarrow> manual_loop rest s2)) = o_sent s1" for name s1
  proof (cases "manual_move name s1")
    case (Pair x y)
    with manual_move_sent [of name s1] have "o_sent y = o_sent s1"
      by simp
    with Pair Cons.IH [of y] show ?thesis
      by (cases x) simp_all
  qed
  show ?case
  proof (cases "override_event s \<and> \<not> shutdown_event s")
    case False
    then show ?thesis unfolding e by auto
  next
    case True
    show ?thesis
    proof (cases entry)
      case NoLine
      with True show ?thesis unfolding e by (simp add: Cons.IH)
    next
      case (Cmd cmd)
      with True show ?thesis unfolding e
        by (simp add: Let_def step Cons.IH)
    qed
  qed
qed

text \<open>
  C5 does not hold for the override script. A directional command never reaches the
  robot: \<^verbatim>\<open>w\<close>, \<^verbatim>\<open>s\<close>, \<^verbatim>\<open>a\<close> and \<^verbatim>\<open>d\<close> name directions that
  \<^verbatim>\<open>MoveRobotDirection\<close> does not have, so the manual loop raises at the first of them,
  before the gateway is called; and the gateway itself, called with a direction that
  exists, raises at \<^verbatim>\<open>req.exec()\<close>. The gateway has neither a clamp nor a rate limiter,
  although its docstring announces a rate-limited move. Whatever the operator enters, the
  log of commands received by the robot stays as it was.
\<close>

theorem manual_commands_raise:
  "o_sent (snd (manual_loop entries s)) = o_sent s
   \<and> manual_loop [(1 / 10, Cmd ''w''), (1 / 10, Cmd ''w'')] (overridden_state 10)
       = (Some AttributeError, (overridden_state 10)\<lparr>o_clock := 101 / 10\<rparr>)
   \<and> manual_loop [(1 / 10, Cmd ''s'')] (overridden_state 10)
       = (Some AttributeError, (overridden_state 10)\<lparr>o_clock := 101 / 10\<rparr>)
   \<and> manual_loop [(1 / 10, Cmd ''a'')] (overridden_state 10)
       = (Some AttributeError, (overridden_state 10)\<lparr>o_clock := 101 / 10\<rparr>)
   \<and> manual_loop [(1 / 10, Cmd ''d'')] (overridden_state 10)
       = (Some AttributeError, (overridden_state 10)\<lparr>o_clock := 101 / 10\<rparr>)
   \<and> safe_move_override FORWARD OVERRIDE_STEP_SIZE (overridden_state 10)
       = (Some AttributeError, overridden_state 10)"
  by (simp add: manual_loop_sent manual_move_def direction_attr_def safe_move_override_def
        MoveRobot_init_def overridden_state_def OVERRIDE_STEP_SIZE_def)

end
